theory Spec2Isabelle
  imports Complex_Main "HOL-Library.Sublist"
begin

section \<open>Rapid Rescue: jerk detection, safety-check countdown and escalation\<close>

text \<open>
  The development embeds the emergency core of \<^verbatim>\<open>App.tsx\<close> (the React component
  \<^verbatim>\<open>App\<close>), of \<^verbatim>\<open>services/geminiService\<close> (\<^verbatim>\<open>findNearbyHospitals\<close>) and of
  the server route \<^verbatim>\<open>POST /api/incidents\<close>.

  Each handler of the component runs to completion on the single JavaScript thread and
  React commits its state updates before the next handler runs; a handler is therefore a
  function from the component's state to the state after it. Numbers of the sensor are
  taken as reals (IEEE rounding is outside the model), clock readings of
  \<^verbatim>\<open>Date.now()\<close> as integers (milliseconds).
\<close>

subsection \<open>Component state\<close>

text \<open>
  A GPS coordinate is only stored and printed by the program, never computed with: it is
  kept as a signed decimal \<open>m / 10 ^ k\<close>, the pair \<open>(m, k)\<close>.
\<close>

type_synonym coord = "int \<times> nat"

text \<open>
  The \<^verbatim>\<open>useState\<close> cells and the \<^verbatim>\<open>useRef\<close> cell of \<^verbatim>\<open>App\<close> that the emergency
  core reads or writes, under their own names. Three more fields stand for what lives
  outside the component: \<open>activeIntervals\<close> and \<open>nextIntervalId\<close> are the browser's
  table of running \<^verbatim>\<open>setInterval\<close> timers and the next identifier it hands out, and
  \<open>emergencyCalls\<close> counts the invocations of \<^verbatim>\<open>triggerEmergency\<close> made so far.
\<close>

record app =
  isMonitoring :: bool
  showSafetyCheck :: bool
  countdown :: int
  location :: "(coord \<times> coord) option"
  lastJerk :: int
  emergencyTriggered :: bool
  timerRef :: "nat option"
  activeIntervals :: "nat set"
  nextIntervalId :: nat
  emergencyCalls :: nat

definition initialState :: app where
  "initialState = \<lparr> isMonitoring = False, showSafetyCheck = False, countdown = 60,
     location = None, lastJerk = 0, emergencyTriggered = False, timerRef = None,
     activeIntervals = {}, nextIntervalId = 1, emergencyCalls = 0 \<rparr>"

subsection \<open>Timers\<close>

text \<open>\<^verbatim>\<open>clearInterval(id)\<close>: removes the timer; a no-op on an identifier that is not running.\<close>

definition clearInterval :: "nat \<Rightarrow> app \<Rightarrow> app" where
  "clearInterval h s = s\<lparr>activeIntervals := activeIntervals s - {h}\<rparr>"

text \<open>
  \<^verbatim>\<open>if (timerRef.current) clearInterval(timerRef.current)\<close>. The identifiers of
  \<^verbatim>\<open>setInterval\<close> are positive, so a ref that holds one passes the test.
\<close>

definition clearTimerRef :: "app \<Rightarrow> app" where
  "clearTimerRef s = (case timerRef s of None \<Rightarrow> s | Some h \<Rightarrow> clearInterval h s)"

text \<open>\<^verbatim>\<open>timerRef.current = setInterval(..., 1000)\<close>\<close>

definition setIntervalRef :: "app \<Rightarrow> app" where
  "setIntervalRef s =
     s\<lparr>timerRef := Some (nextIntervalId s),
       activeIntervals := insert (nextIntervalId s) (activeIntervals s),
       nextIntervalId := Suc (nextIntervalId s)\<rparr>"

subsection \<open>The handlers\<close>

text \<open>
  \<^verbatim>\<open>triggerSafetyCheck\<close>: shows the modal, sets the countdown to 60, asks for the position
  (the answer arrives later, as its own event), cancels the timer of the ref and starts
  a new one.
\<close>

definition triggerSafetyCheck :: "app \<Rightarrow> app" where
  "triggerSafetyCheck s =
     setIntervalRef (clearTimerRef (s\<lparr>showSafetyCheck := True, countdown := 60\<rparr>))"

text \<open>
  \<^verbatim>\<open>triggerEmergency\<close>, the part that runs before its first \<^verbatim>\<open>await\<close>: the two state
  updates. The invocation is counted. The function does not touch the timer.
\<close>

definition triggerEmergency :: "app \<Rightarrow> app" where
  "triggerEmergency s =
     s\<lparr>emergencyTriggered := True, showSafetyCheck := False,
       emergencyCalls := Suc (emergencyCalls s)\<rparr>"

text \<open>
  The callback of the interval: \<^verbatim>\<open>setCountdown((prev) => ...)\<close>. At \<open>prev \<le> 1\<close> it
  clears the timer of the ref, calls \<^verbatim>\<open>triggerEmergency\<close> and stores 0; otherwise it
  stores \<open>prev - 1\<close>.
\<close>

definition intervalCallback :: "app \<Rightarrow> app" where
  "intervalCallback s =
     (if countdown s \<le> 1
      then (triggerEmergency (clearTimerRef s))\<lparr>countdown := 0\<rparr>
      else s\<lparr>countdown := countdown s - 1\<rparr>)"

text \<open>\<^verbatim>\<open>handleIAmSafe\<close>\<close>

definition handleIAmSafe :: "app \<Rightarrow> app" where
  "handleIAmSafe s = clearTimerRef (s\<lparr>showSafetyCheck := False\<rparr>)"

subsection \<open>Jerk detection\<close>

text \<open>
  \<^verbatim>\<open>event.accelerationIncludingGravity\<close> is an object or null, and each of its components
  is a number or null; \<^verbatim>\<open>(acc.x || 0)\<close> reads a null component (and 0) as 0.
\<close>

record acceleration =
  acc_x :: "real option"
  acc_y :: "real option"
  acc_z :: "real option"

record deviceMotionEvent =
  accelerationIncludingGravity :: "acceleration option"

definition orZero :: "real option \<Rightarrow> real" where
  "orZero v = (case v of None \<Rightarrow> 0 | Some r \<Rightarrow> r)"

definition totalAcc :: "acceleration \<Rightarrow> real" where
  "totalAcc a = sqrt ((orZero (acc_x a))\<^sup>2 + (orZero (acc_y a))\<^sup>2 + (orZero (acc_z a))\<^sup>2)"

text \<open>
  \<^verbatim>\<open>handleMotion\<close>. The handler reads the clock twice: \<open>now\<close> in the condition and
  \<open>now'\<close> for the value stored in \<open>lastJerk\<close>.
\<close>

definition handleMotion :: "deviceMotionEvent \<Rightarrow> int \<Rightarrow> int \<Rightarrow> app \<Rightarrow> app" where
  "handleMotion ev now now' s =
     (case accelerationIncludingGravity ev of
        None \<Rightarrow> s
      | Some a \<Rightarrow>
          if totalAcc a > 25 \<and> now - lastJerk s > 5000
          then triggerSafetyCheck (s\<lparr>lastJerk := now'\<rparr>)
          else s)"

subsection \<open>Events\<close>

text \<open>
  What can happen to the component: a \<^verbatim>\<open>devicemotion\<close> event (the listener exists only
  while \<open>isMonitoring\<close>), the button SIMULATE ACCIDENT (TEST), a firing of the interval
  with a given identifier (only a running interval fires), the buttons I AM SAFE and
  TRIGGER NOW (rendered only while \<open>showSafetyCheck\<close>), the button DISMISS (rendered only
  while \<open>emergencyTriggered\<close>), the answer of a position request, and the granting of
  permissions, which switches monitoring on.
\<close>

datatype event =
    Motion deviceMotionEvent int int
  | SimulateAccident
  | Tick nat
  | IAmSafe
  | TriggerNow
  | Dismiss
  | PositionFix coord coord
  | PermissionsGranted

fun step :: "app \<Rightarrow> event \<Rightarrow> app" where
  "step s (Motion ev now now') = (if isMonitoring s then handleMotion ev now now' s else s)"
| "step s SimulateAccident = triggerSafetyCheck s"
| "step s (Tick h) = (if h \<in> activeIntervals s then intervalCallback s else s)"
| "step s IAmSafe = (if showSafetyCheck s then handleIAmSafe s else s)"
| "step s TriggerNow = (if showSafetyCheck s then triggerEmergency s else s)"
| "step s Dismiss = (if emergencyTriggered s then s\<lparr>emergencyTriggered := False\<rparr> else s)"
| "step s (PositionFix la lo) = s\<lparr>location := Some (la, lo)\<rparr>"
| "step s PermissionsGranted = s\<lparr>isMonitoring := True\<rparr>"

fun run :: "app \<Rightarrow> event list \<Rightarrow> app" where
  "run s [] = s"
| "run s (e # es) = run (step s e) es"

subsection \<open>Strings of the runtime\<close>

text \<open>
  \<^verbatim>\<open>String.prototype.toUpperCase\<close>, on the letters a to z (a \<^typ>\<open>char\<close> is a byte;
  other bytes are kept).
\<close>

definition upperChar :: "char \<Rightarrow> char" where
  "upperChar c =
     (if (97::nat) \<le> of_char c \<and> of_char c \<le> (122::nat)
      then char_of (of_char c - (32::nat)) else c)"

definition toUpperCase :: "string \<Rightarrow> string" where
  "toUpperCase s = map upperChar s"

text \<open>
  The conversion of a number inside a template literal, for a decimal \<open>m / 10 ^ k\<close> in
  the range where JavaScript prints plain decimal notation: an optional sign, the
  integer part, and the fraction without trailing zeros.
\<close>

fun digitsOf :: "nat \<Rightarrow> string" where
  "digitsOf n =
     (if n < 10 then [char_of (48 + n)]
      else digitsOf (n div 10) @ [char_of (48 + n mod 10)])"

declare digitsOf.simps [simp del]

definition dropTrailingZeros :: "string \<Rightarrow> string" where
  "dropTrailingZeros ds = rev (dropWhile (\<lambda>c. c = CHR ''0'') (rev ds))"

definition fractionDigits :: "nat \<Rightarrow> nat \<Rightarrow> string" where
  "fractionDigits k f =
     dropTrailingZeros (replicate (k - length (digitsOf f)) (CHR ''0'') @ digitsOf f)"

definition numberToString :: "coord \<Rightarrow> string" where
  "numberToString c =
     (case c of (m, k) \<Rightarrow>
        (if m < 0 then ''-'' else [])
        @ digitsOf (nat \<bar>m\<bar> div 10 ^ k)
        @ (if fractionDigits k (nat \<bar>m\<bar> mod 10 ^ k) = [] then []
           else ''.'' @ fractionDigits k (nat \<bar>m\<bar> mod 10 ^ k)))"

subsection \<open>Hospital lookup\<close>

text \<open>
  \<^verbatim>\<open>findNearbyHospitals\<close> awaits \<^verbatim>\<open>ai.models.generateContent\<close> inside a
  \<^verbatim>\<open>try\<close>. The call is the environment's: it is rejected (any exception thrown in
  the \<^verbatim>\<open>try\<close> block ends in the same \<^verbatim>\<open>catch\<close>), or fulfilled with a response, of
  which the function reads \<^verbatim>\<open>text\<close> and the grounding chunks of the first candidate.
  A missing field is \<open>None\<close>; \<^verbatim>\<open>||\<close> and the filter take a missing and an empty string
  alike as false.
\<close>

record groundingMaps =
  maps_title :: "string option"
  maps_uri :: "string option"
  maps_phone :: "string option"

record groundingChunk =
  chunk_maps :: "groundingMaps option"

record generateContentResponse =
  response_text :: "string option"
  response_groundingChunks :: "groundingChunk list option"

datatype generateContentOutcome = Rejected | Fulfilled generateContentResponse

record hospitalLink =
  link_title :: "string option"
  link_uri :: string
  link_phone :: string

record hospitalResult =
  result_text :: string
  result_links :: "hospitalLink list"

definition orElse :: "string option \<Rightarrow> string \<Rightarrow> string" where
  "orElse v d = (case v of None \<Rightarrow> d | Some s \<Rightarrow> if s = [] then d else s)"

definition hasUri :: "groundingChunk \<Rightarrow> bool" where
  "hasUri c =
     (case chunk_maps c of None \<Rightarrow> False
      | Some m \<Rightarrow> (case maps_uri m of None \<Rightarrow> False | Some u \<Rightarrow> u \<noteq> []))"

text \<open>
  The function mapped over the filtered chunks. Its first case is never used: the filter
  keeps only chunks that have \<^verbatim>\<open>maps\<close> with a nonempty \<^verbatim>\<open>uri\<close>.
\<close>

definition toLink :: "groundingChunk \<Rightarrow> hospitalLink" where
  "toLink c =
     (case chunk_maps c of
        None \<Rightarrow> \<lparr>link_title = None, link_uri = [], link_phone = ''N/A''\<rparr>
      | Some m \<Rightarrow> \<lparr>link_title = maps_title m, link_uri = orElse (maps_uri m) [],
                   link_phone = orElse (maps_phone m) ''N/A''\<rparr>)"

definition fallbackResult :: hospitalResult where
  "fallbackResult =
     \<lparr>result_text = ''Could not retrieve hospital information due to an error.'',
      result_links = []\<rparr>"

definition findNearbyHospitals :: "coord \<Rightarrow> coord \<Rightarrow> generateContentOutcome \<Rightarrow> hospitalResult" where
  "findNearbyHospitals lat lng outcome =
     (case outcome of
        Rejected \<Rightarrow> fallbackResult
      | Fulfilled r \<Rightarrow>
          \<lparr>result_text = orElse (response_text r) ''No hospital information found.'',
           result_links =
             map toLink (filter hasUri
               (case response_groundingChunks r of None \<Rightarrow> [] | Some cs \<Rightarrow> cs))\<rparr>)"

subsection \<open>Escalation\<close>

record contact =
  contact_id :: nat
  contact_name :: string
  contact_phone :: string
  contact_email :: string

text \<open>The entries of the two \<^verbatim>\<open>console.log\<close> calls and the body of the POST request.\<close>

record smsAlert =
  sms_to :: string
  sms_message :: string

record ambulanceRequest =
  req_hospital :: "string option"
  req_phone :: string
  req_message :: string

record incidentBody =
  body_lat :: coord
  body_lng :: coord
  body_details :: string

definition locationLink :: "coord \<Rightarrow> coord \<Rightarrow> string" where
  "locationLink lat lng =
     ''https://www.google.com/maps?q='' @ numberToString lat @ '','' @ numberToString lng"

definition emergencyMessage :: "string \<Rightarrow> coord \<Rightarrow> coord \<Rightarrow> string" where
  "emergencyMessage userName lat lng =
     toUpperCase userName @ '' IS IN EMERGENCY. Location: '' @ locationLink lat lng"

definition ambulanceMessage :: "string \<Rightarrow> coord \<Rightarrow> coord \<Rightarrow> string" where
  "ambulanceMessage userName lat lng =
     ''EMERGENCY: Accident detected at '' @ locationLink lat lng
     @ ''. Ambulance requested for '' @ userName @ ''.''"

definition incidentDetails :: "string \<Rightarrow> coord \<Rightarrow> coord \<Rightarrow> hospitalResult \<Rightarrow> string" where
  "incidentDetails userName lat lng result =
     ''Emergency triggered for '' @ userName @ ''. '' @ emergencyMessage userName lat lng
     @ ''. Nearby hospitals: '' @ result_text result"

text \<open>
  What one run of \<^verbatim>\<open>triggerEmergency\<close> produces after its awaits: the values it stores
  in \<^verbatim>\<open>hospitalInfo\<close> and \<^verbatim>\<open>hospitalLinks\<close>, the two logged lists, and the POST
  requests it sends to \<^verbatim>\<open>/api/incidents\<close>, in order.
\<close>

record escalation =
  esc_hospitalInfo :: string
  esc_hospitalLinks :: "hospitalLink list"
  esc_sms :: "smsAlert list"
  esc_ambulance :: "ambulanceRequest list"
  esc_posts :: "incidentBody list"

text \<open>
  \<^verbatim>\<open>triggerEmergency\<close> from the line after \<^verbatim>\<open>await findNearbyHospitals(lat, lng)\<close>,
  with \<open>result\<close> the value awaited.
\<close>

definition escalate ::
  "string \<Rightarrow> contact list \<Rightarrow> coord \<Rightarrow> coord \<Rightarrow> hospitalResult \<Rightarrow> escalation" where
  "escalate userName contacts lat lng result =
     \<lparr>esc_hospitalInfo = result_text result,
      esc_hospitalLinks = result_links result,
      esc_sms = map (\<lambda>c. \<lparr>sms_to = contact_phone c,
                          sms_message = emergencyMessage userName lat lng\<rparr>) contacts,
      esc_ambulance = map (\<lambda>h. \<lparr>req_hospital = link_title h, req_phone = link_phone h,
                                req_message = ambulanceMessage userName lat lng\<rparr>)
                        (result_links result),
      esc_posts = [\<lparr>body_lat = lat, body_lng = lng,
                    body_details = incidentDetails userName lat lng result\<rparr>]\<rparr>"

text \<open>
  The asynchronous part of \<^verbatim>\<open>triggerEmergency\<close> as a whole. \<open>loc\<close> is the
  \<^verbatim>\<open>location\<close> the closure holds; without one the function awaits a position request
  that has no error callback: \<open>position = None\<close> is the request that is never answered,
  and then the function never continues (\<open>None\<close>).
\<close>

definition triggerEmergencyAsync ::
  "string \<Rightarrow> contact list \<Rightarrow> (coord \<times> coord) option \<Rightarrow> (coord \<times> coord) option \<Rightarrow>
   generateContentOutcome \<Rightarrow> escalation option" where
  "triggerEmergencyAsync userName contacts loc position outcome =
     (case (case loc of Some l \<Rightarrow> Some l | None \<Rightarrow> position) of
        None \<Rightarrow> None
      | Some (lat, lng) \<Rightarrow>
          Some (escalate userName contacts lat lng (findNearbyHospitals lat lng outcome)))"

subsection \<open>The incident store\<close>

text \<open>
  The table \<^verbatim>\<open>incidents\<close> and the route \<^verbatim>\<open>POST /api/incidents\<close>: one row per request,
  with status \<^verbatim>\<open>PENDING\<close>. Rows are only ever inserted, so the autoincremented key of a
  new row is the number of rows plus one; \<open>ts\<close> is the database's
  \<^verbatim>\<open>CURRENT_TIMESTAMP\<close>.
\<close>

record incident =
  incident_id :: nat
  incident_timestamp :: string
  location_lat :: coord
  location_lng :: coord
  status :: string
  details :: string

definition postIncident :: "string \<Rightarrow> incidentBody \<Rightarrow> incident list \<Rightarrow> incident list" where
  "postIncident ts body db =
     db @ [\<lparr>incident_id = Suc (length db), incident_timestamp = ts,
            location_lat = body_lat body, location_lng = body_lng body,
            status = ''PENDING'', details = body_details body\<rparr>]"

text \<open>The store after the requests of an escalation have been served, in order.\<close>

fun servePosts :: "string \<Rightarrow> incidentBody list \<Rightarrow> incident list \<Rightarrow> incident list" where
  "servePosts ts [] db = db"
| "servePosts ts (b # bs) db = servePosts ts bs (postIncident ts b db)"

subsection \<open>Runs, timers and jerk events\<close>

text \<open>
  At most the timer of the ref is running, and the ref holds an identifier the browser
  has already handed out. While the safety check is open, the timer of the ref is
  running and the countdown shows 1 to 60.
\<close>

definition timerInv :: "app \<Rightarrow> bool" where
  "timerInv s =
     (activeIntervals s \<subseteq> set_option (timerRef s) \<and>
      (case timerRef s of None \<Rightarrow> True | Some h \<Rightarrow> h < nextIntervalId s) \<and>
      (showSafetyCheck s \<longrightarrow>
         (case timerRef s of None \<Rightarrow> False | Some h \<Rightarrow> h \<in> activeIntervals s) \<and>
         1 \<le> countdown s \<and> countdown s \<le> 60))"



subsection \<open>Sample data\<close>

text \<open>
  A motion event with acceleration \<open>v\<close> along one axis and 0 along the other two, and
  a jolt of 30.
\<close>

definition sample :: "real \<Rightarrow> deviceMotionEvent" where
  "sample v =
     \<lparr>accelerationIncludingGravity = Some \<lparr>acc_x = Some 0, acc_y = Some 0, acc_z = Some v\<rparr>\<rparr>"

definition jolt :: deviceMotionEvent where
  "jolt = sample 30"

text \<open>The contact, the coordinates and the hospital lookup of the end-to-end example.\<close>

definition asha :: contact where
  "asha = \<lparr>contact_id = 1, contact_name = ''Asha'', contact_phone = ''9999999999'',
           contact_email = ''asha@example.com''\<rparr>"

definition cityLookup :: hospitalResult where
  "cityLookup =
     \<lparr>result_text = ''3 hospitals found'',
      result_links = [\<lparr>link_title = Some ''City Hospital'', link_uri = ''...'',
                       link_phone = ''123''\<rparr>]\<rparr>"

definition cityResponse :: generateContentResponse where
  "cityResponse =
     \<lparr>response_text = Some ''3 hospitals found'',
      response_groundingChunks =
        Some [\<lparr>chunk_maps = Some \<lparr>maps_title = Some ''City Hospital'', maps_uri = Some ''...'',
                                   maps_phone = Some ''123''\<rparr>\<rparr>]\<rparr>"



section \<open>Properties\<close>

subsection \<open>Auxiliary facts about timers and runs\<close>

lemmas handler_defs =
  triggerSafetyCheck_def setIntervalRef_def clearTimerRef_def clearInterval_def
  handleMotion_def intervalCallback_def triggerEmergency_def handleIAmSafe_def

lemma timerInv_initial: "timerInv initialState"
  by (simp add: timerInv_def initialState_def)

lemma timerInv_step: "timerInv s \<Longrightarrow> timerInv (step s e)"
  by (cases e) (auto simp: timerInv_def handler_defs split: option.splits)

lemma timerInv_run: "timerInv s \<Longrightarrow> timerInv (run s es)"
  by (induction es arbitrary: s) (simp_all add: timerInv_step)

lemma timerInv_reachable: "timerInv (run initialState es)"
  by (simp add: timerInv_run timerInv_initial)

lemma timerInv_clearTimerRef: "timerInv s \<Longrightarrow> activeIntervals (clearTimerRef s) = {}"
  by (auto simp: timerInv_def clearTimerRef_def clearInterval_def split: option.splits)

lemma run_append: "run s (es @ fs) = run (run s es) fs"
  by (induction es arbitrary: s) simp_all

lemma nextIntervalId_step: "nextIntervalId s \<le> nextIntervalId (step s e)"
  by (cases e) (auto simp: handler_defs split: option.splits)

lemma nextIntervalId_run: "nextIntervalId s \<le> nextIntervalId (run s es)"
proof (induction es arbitrary: s)
  case Nil
  show ?case by simp
next
  case (Cons e es)
  have "nextIntervalId s \<le> nextIntervalId (step s e)" by (rule nextIntervalId_step)
  also have "\<dots> \<le> nextIntervalId (run (step s e) es)" by (rule Cons.IH)
  finally show ?case by simp
qed

text \<open>While the countdown is above the number of ticks, each tick only decrements it.\<close>

lemma ticks_count_down:
  "h \<in> activeIntervals s \<Longrightarrow> int n < countdown s \<Longrightarrow>
   run s (replicate n (Tick h)) = s\<lparr>countdown := countdown s - int n\<rparr>"
proof (induction n arbitrary: s)
  case 0
  then show ?case by simp
next
  case (Suc n)
  let ?s' = "s\<lparr>countdown := countdown s - 1\<rparr>"
  have "step s (Tick h) = ?s'"
    using Suc.prems by (simp add: intervalCallback_def)
  moreover have "run ?s' (replicate n (Tick h)) = ?s'\<lparr>countdown := countdown ?s' - int n\<rparr>"
    using Suc.prems by (intro Suc.IH) simp_all
  ultimately show ?case by simp
qed

lemma no_timer_ticks_idle: "activeIntervals s = {} \<Longrightarrow> run s (replicate n (Tick h)) = s"
  by (induction n) simp_all

lemma last_tick:
  assumes "h \<in> activeIntervals s" and "countdown s = int (Suc n)"
  shows "run s (replicate (Suc n) (Tick h)) = (triggerEmergency (clearTimerRef s))\<lparr>countdown := 0\<rparr>"
proof -
  have "run s (replicate (Suc n) (Tick h)) = run (run s (replicate n (Tick h))) [Tick h]"
    by (simp add: run_append flip: replicate_append_same)
  also have "run s (replicate n (Tick h)) = s\<lparr>countdown := countdown s - int n\<rparr>"
    using assms by (intro ticks_count_down) simp_all
  also have "run (s\<lparr>countdown := countdown s - int n\<rparr>) [Tick h]
     = (triggerEmergency (clearTimerRef s))\<lparr>countdown := 0\<rparr>"
    using assms by (simp add: handler_defs split: option.splits)
  finally show ?thesis .
qed

text \<open>
  With no timer running and the modal hidden, nothing escalates until a new countdown is
  started (which takes a new interval identifier).
\<close>

lemma quiet_step:
  assumes "activeIntervals s = {}" "\<not> showSafetyCheck s"
    and "nextIntervalId (step s e) = nextIntervalId s"
  shows "activeIntervals (step s e) = {} \<and> \<not> showSafetyCheck (step s e) \<and>
         emergencyCalls (step s e) = emergencyCalls s"
  using assms by (cases e) (auto simp: handler_defs split: option.splits if_splits)

lemma quiet_run:
  "activeIntervals s = {} \<Longrightarrow> \<not> showSafetyCheck s \<Longrightarrow>
   nextIntervalId (run s es) = nextIntervalId s \<Longrightarrow>
   emergencyCalls (run s es) = emergencyCalls s \<and> \<not> showSafetyCheck (run s es)"
proof (induction es arbitrary: s)
  case Nil
  then show ?case by simp
next
  case (Cons e es)
  have "nextIntervalId s \<le> nextIntervalId (step s e)" by (rule nextIntervalId_step)
  moreover have "nextIntervalId (step s e) \<le> nextIntervalId (run (step s e) es)"
    by (rule nextIntervalId_run)
  ultimately have same: "nextIntervalId (step s e) = nextIntervalId s"
    using Cons.prems(3) by simp
  from quiet_step [OF Cons.prems(1,2) same] Cons.IH [of "step s e"] Cons.prems(3) same
  show ?case by simp
qed


subsection \<open>Auxiliary facts about the jerk condition\<close>

lemma sqrt_gt_25: "sqrt x > 25 \<longleftrightarrow> x > 625"
proof -
  have "sqrt 625 = 25" by (rule real_sqrt_unique) simp_all
  then show ?thesis by (metis real_sqrt_less_iff)
qed







subsection \<open>Auxiliary facts about the example escalation\<close>

lemma asha_details:
  "incidentDetails ''Asha'' (129, 1) (776, 1) cityLookup =
   ''Emergency triggered for Asha. ASHA IS IN EMERGENCY. Location: https://www.google.com/maps?q=12.9,77.6. Nearby hospitals: 3 hospitals found''"
  by code_simp

lemma asha_message:
  "emergencyMessage ''Asha'' (129, 1) (776, 1) =
   ''ASHA IS IN EMERGENCY. Location: https://www.google.com/maps?q=12.9,77.6''"
  by code_simp

lemma asha_ambulance:
  "ambulanceMessage ''Asha'' (129, 1) (776, 1) =
   ''EMERGENCY: Accident detected at https://www.google.com/maps?q=12.9,77.6. Ambulance requested for Asha.''"
  by code_simp

lemma city_lookup: "findNearbyHospitals lat lng (Fulfilled cityResponse) = cityLookup"
  by (simp add: findNearbyHospitals_def cityResponse_def cityLookup_def orElse_def hasUri_def
      toLink_def)

lemma servePosts_single:
  "servePosts ts [b] db =
   db @ [\<lparr>incident_id = Suc (length db), incident_timestamp = ts, location_lat = body_lat b,
          location_lng = body_lng b, status = ''PENDING'', details = body_details b\<rparr>]"
  by (simp add: postIncident_def)

subsection \<open>The countdown\<close>

text \<open>
  Claim C1 (fails on the code). The claim: every exit from the open safety check stops
  the interval, so \<^verbatim>\<open>triggerEmergency\<close> runs at most once per countdown. I AM SAFE and the
  expiry do stop it; TRIGGER NOW calls \<^verbatim>\<open>triggerEmergency\<close> directly, which does not.
  The run below starts one countdown and presses TRIGGER NOW: the safety check is closed
  after one escalation, interval 1 is still running, and its 60th tick escalates a second
  time, with no second countdown ever started (the next interval identifier is still 2).
\<close>

theorem triggerNow_leaves_timer_running:
  "activeIntervals (run initialState [SimulateAccident, TriggerNow]) = {1} \<and>
   \<not> showSafetyCheck (run initialState [SimulateAccident, TriggerNow]) \<and>
   emergencyCalls (run initialState [SimulateAccident, TriggerNow]) = 1 \<and>
   emergencyCalls (run initialState ([SimulateAccident, TriggerNow] @ replicate 60 (Tick 1))) = 2 \<and>
   nextIntervalId (run initialState ([SimulateAccident, TriggerNow] @ replicate 60 (Tick 1))) = 2"
proof -
  define s where "s = run initialState [SimulateAccident, TriggerNow]"
  have s: "s = \<lparr>isMonitoring = False, showSafetyCheck = False, countdown = 60, location = None,
       lastJerk = 0, emergencyTriggered = True, timerRef = Some 1, activeIntervals = {1},
       nextIntervalId = 2, emergencyCalls = 1\<rparr>"
    by (simp add: s_def handler_defs initialState_def)
  have "run s (replicate (Suc 59) (Tick 1)) = (triggerEmergency (clearTimerRef s))\<lparr>countdown := 0\<rparr>"
    by (rule last_tick) (simp_all add: s)
  then have "run s (replicate 60 (Tick 1)) = (triggerEmergency (clearTimerRef s))\<lparr>countdown := 0\<rparr>"
    by simp
  then have e: "emergencyCalls (run s (replicate 60 (Tick 1))) = 2"
    and n: "nextIntervalId (run s (replicate 60 (Tick 1))) = 2"
    by (simp_all add: s handler_defs)
  have "activeIntervals s = {1}" "\<not> showSafetyCheck s" "emergencyCalls s = 1"
    by (simp_all add: s)
  with e n show ?thesis
    unfolding run_append s_def [symmetric] by simp
qed

text \<open>
  Claim C2 as stated fails: a second jerk while the safety check is open does alter the
  countdown. After one jerk and one tick the countdown shows 59; a jerk 6 seconds after
  the first sets it back to 60.
\<close>

theorem second_jerk_resets_countdown:
  "showSafetyCheck (run initialState [PermissionsGranted, Motion jolt 6000 6000, Tick 1]) \<and>
   countdown (run initialState [PermissionsGranted, Motion jolt 6000 6000, Tick 1]) = 59 \<and>
   countdown (step (run initialState [PermissionsGranted, Motion jolt 6000 6000, Tick 1])
                (Motion jolt 12000 12000)) = 60"
  by (simp add: handler_defs initialState_def jolt_def sample_def totalAcc_def orZero_def
      sqrt_gt_25)

text \<open>
  Claim C2, amended. In every reachable state with the safety check open, a motion
  sample that satisfies the jerk condition restarts the countdown: the countdown is set
  to 60, the safety check stays open, the running interval is cancelled and a new one is
  started, so that exactly one interval is running afterwards and none of the earlier
  ones; nothing escalates.
\<close>

theorem second_jerk_restarts_countdown:
  assumes "s = run initialState evs" and "showSafetyCheck s" and "isMonitoring s"
    and "accelerationIncludingGravity ev = Some a"
    and "totalAcc a > 25" and "now - lastJerk s > 5000"
  shows "countdown (step s (Motion ev now now')) = 60 \<and>
         showSafetyCheck (step s (Motion ev now now')) \<and>
         timerRef (step s (Motion ev now now')) = Some (nextIntervalId s) \<and>
         activeIntervals (step s (Motion ev now now')) = {nextIntervalId s} \<and>
         activeIntervals s \<inter> activeIntervals (step s (Motion ev now now')) = {} \<and>
         emergencyCalls (step s (Motion ev now now')) = emergencyCalls s"
proof -
  have inv: "timerInv s"
    using timerInv_reachable [of evs] assms(1) by simp
  have fire: "step s (Motion ev now now') = triggerSafetyCheck (s\<lparr>lastJerk := now'\<rparr>)"
    using assms by (simp add: handleMotion_def)
  from inv show ?thesis
    unfolding fire by (auto simp: timerInv_def handler_defs split: option.splits)
qed

theorem second_jerk_restarts_countdown_witness:
  "showSafetyCheck (run initialState [PermissionsGranted, Motion jolt 6000 6000, Tick 1]) \<and>
   isMonitoring (run initialState [PermissionsGranted, Motion jolt 6000 6000, Tick 1]) \<and>
   activeIntervals (run initialState [PermissionsGranted, Motion jolt 6000 6000, Tick 1]) = {1} \<and>
   countdown (step (run initialState [PermissionsGranted, Motion jolt 6000 6000, Tick 1])
                (Motion jolt 12000 12001)) = 60 \<and>
   activeIntervals (step (run initialState [PermissionsGranted, Motion jolt 6000 6000, Tick 1])
                (Motion jolt 12000 12001)) = {2}"
proof -
  have s: "run initialState [PermissionsGranted, Motion jolt 6000 6000, Tick 1] =
      \<lparr>isMonitoring = True, showSafetyCheck = True, countdown = 59, location = None,
       lastJerk = 6000, emergencyTriggered = False, timerRef = Some 1, activeIntervals = {1},
       nextIntervalId = 2, emergencyCalls = 0\<rparr>"
    by (simp add: handler_defs initialState_def jolt_def sample_def totalAcc_def orZero_def
        sqrt_gt_25)
  have a: "showSafetyCheck (run initialState [PermissionsGranted, Motion jolt 6000 6000, Tick 1])"
    and b: "isMonitoring (run initialState [PermissionsGranted, Motion jolt 6000 6000, Tick 1])"
    and c: "12000 - lastJerk (run initialState [PermissionsGranted, Motion jolt 6000 6000, Tick 1])
              > 5000"
    unfolding s by simp_all
  have d: "accelerationIncludingGravity jolt
            = Some \<lparr>acc_x = Some 0, acc_y = Some 0, acc_z = Some 30\<rparr>"
    by (simp add: jolt_def sample_def)
  have e: "totalAcc \<lparr>acc_x = Some 0, acc_y = Some 0, acc_z = Some 30\<rparr> > 25"
    by (simp add: totalAcc_def orZero_def sqrt_gt_25)
  note inst = second_jerk_restarts_countdown [OF refl a b d e c, of 12001]
  with a b show ?thesis unfolding s by simp
qed

text \<open>
  Claim C3. Take any reachable state with the safety check open and the countdown at 60,
  and let \<open>h\<close> be the timer of the ref. Each of the first 59 ticks of \<open>h\<close> decrements the
  countdown by exactly 1 and leaves the safety check open, the timer running and the
  number of escalations unchanged; after 59 ticks the countdown is 1. The 60th tick
  closes the safety check, sets \<open>emergencyTriggered\<close>, stops the timer and invokes
  \<^verbatim>\<open>triggerEmergency\<close> exactly once; the countdown cell then holds 0, with the safety
  check no longer open (the safety check is never open at 0). No later tick of any timer
  changes anything.
\<close>

theorem countdown_expires_on_sixtieth_tick:
  assumes "s1 = run initialState evs" and "showSafetyCheck s1" and "countdown s1 = 60"
    and "timerRef s1 = Some h"
  shows "(\<forall>n \<le> 59. countdown (run s1 (replicate n (Tick h))) = 60 - int n \<and>
       showSafetyCheck (run s1 (replicate n (Tick h))) \<and>
       h \<in> activeIntervals (run s1 (replicate n (Tick h))) \<and>
       emergencyCalls (run s1 (replicate n (Tick h))) = emergencyCalls s1) \<and>
    \<not> showSafetyCheck (run s1 (replicate 60 (Tick h))) \<and>
    emergencyTriggered (run s1 (replicate 60 (Tick h))) \<and>
    countdown (run s1 (replicate 60 (Tick h))) = 0 \<and>
    activeIntervals (run s1 (replicate 60 (Tick h))) = {} \<and>
    emergencyCalls (run s1 (replicate 60 (Tick h))) = Suc (emergencyCalls s1) \<and>
    (\<forall>k h'. run s1 (replicate 60 (Tick h) @ replicate k (Tick h'))
             = run s1 (replicate 60 (Tick h)))"
proof -
  have inv: "timerInv s1"
    using timerInv_reachable [of evs] assms(1) by simp
  have st: "h \<in> activeIntervals s1" "countdown s1 = 60" "showSafetyCheck s1"
    using inv assms by (simp_all add: timerInv_def)
  have first: "\<forall>n \<le> 59. countdown (run s1 (replicate n (Tick h))) = 60 - int n \<and>
       showSafetyCheck (run s1 (replicate n (Tick h))) \<and>
       h \<in> activeIntervals (run s1 (replicate n (Tick h))) \<and>
       emergencyCalls (run s1 (replicate n (Tick h))) = emergencyCalls s1"
    using st by (simp add: ticks_count_down)
  have e: "run s1 (replicate 60 (Tick h)) = (triggerEmergency (clearTimerRef s1))\<lparr>countdown := 0\<rparr>"
    using last_tick [of h s1 59] st by simp
  have closed: "\<not> showSafetyCheck (run s1 (replicate 60 (Tick h)))"
    and trig: "emergencyTriggered (run s1 (replicate 60 (Tick h)))"
    and zero: "countdown (run s1 (replicate 60 (Tick h))) = 0"
    by (simp_all add: e triggerEmergency_def)
  have none: "activeIntervals (run s1 (replicate 60 (Tick h))) = {}"
    using timerInv_clearTimerRef [OF inv] by (simp add: e triggerEmergency_def)
  have once: "emergencyCalls (run s1 (replicate 60 (Tick h))) = Suc (emergencyCalls s1)"
    by (simp add: e triggerEmergency_def clearTimerRef_def clearInterval_def split: option.splits)
  have later: "\<forall>k h'. run s1 (replicate 60 (Tick h) @ replicate k (Tick h'))
             = run s1 (replicate 60 (Tick h))"
    using none by (simp add: run_append no_timer_ticks_idle)
  from first closed trig zero none once later show ?thesis by blast
qed

theorem countdown_expires_on_sixtieth_tick_witness:
  "showSafetyCheck (run initialState [SimulateAccident]) \<and>
   countdown (run initialState [SimulateAccident]) = 60 \<and>
   timerRef (run initialState [SimulateAccident]) = Some 1 \<and>
   countdown (run (run initialState [SimulateAccident]) (replicate 59 (Tick 1))) = 1 \<and>
   showSafetyCheck (run (run initialState [SimulateAccident]) (replicate 59 (Tick 1))) \<and>
   \<not> showSafetyCheck (run (run initialState [SimulateAccident]) (replicate 60 (Tick 1))) \<and>
   emergencyCalls (run (run initialState [SimulateAccident]) (replicate 60 (Tick 1))) = 1"
proof -
  have s: "run initialState [SimulateAccident] =
      \<lparr>isMonitoring = False, showSafetyCheck = True, countdown = 60, location = None,
       lastJerk = 0, emergencyTriggered = False, timerRef = Some 1, activeIntervals = {1},
       nextIntervalId = 2, emergencyCalls = 0\<rparr>"
    by (simp add: handler_defs initialState_def)
  have a: "showSafetyCheck (run initialState [SimulateAccident])"
    and b: "countdown (run initialState [SimulateAccident]) = 60"
    and c: "timerRef (run initialState [SimulateAccident]) = Some 1"
    and d: "emergencyCalls (run initialState [SimulateAccident]) = 0"
    unfolding s by simp_all
  note inst = countdown_expires_on_sixtieth_tick [OF refl a b c]
  from inst have "countdown (run (run initialState [SimulateAccident]) (replicate 59 (Tick 1)))
        = 60 - int 59 \<and>
      showSafetyCheck (run (run initialState [SimulateAccident]) (replicate 59 (Tick 1)))"
    by blast
  with inst a b c d show ?thesis by simp
qed

text \<open>
  Claim C4. In every reachable state with the safety check open, the countdown shows 1 to
  60, and I AM SAFE closes the safety check and stops the timer without escalating; as
  long as no new countdown is started (the browser has handed out no new interval
  identifier), no later event, tick or other, invokes \<^verbatim>\<open>triggerEmergency\<close>.
\<close>

theorem markSafe_cancels_countdown:
  assumes "s = run initialState evs" and "showSafetyCheck s"
  shows "1 \<le> countdown s \<and> countdown s \<le> 60 \<and>
         \<not> showSafetyCheck (step s IAmSafe) \<and>
         activeIntervals (step s IAmSafe) = {} \<and>
         emergencyCalls (step s IAmSafe) = emergencyCalls s \<and>
         (\<forall>es. nextIntervalId (run (step s IAmSafe) es) = nextIntervalId s \<longrightarrow>
               emergencyCalls (run (step s IAmSafe) es) = emergencyCalls s)"
proof -
  have reach: "timerInv s"
    using timerInv_reachable [of evs] assms(1) by simp
  then have range: "1 \<le> countdown s" "countdown s \<le> 60"
    using assms(2) by (simp_all add: timerInv_def)
  have inv: "timerInv (s\<lparr>showSafetyCheck := False\<rparr>)"
    using reach by (simp add: timerInv_def split: option.splits)
  have safe: "step s IAmSafe = clearTimerRef (s\<lparr>showSafetyCheck := False\<rparr>)"
    using assms(2) by (simp add: handleIAmSafe_def)
  have a: "activeIntervals (step s IAmSafe) = {}"
    unfolding safe by (rule timerInv_clearTimerRef [OF inv])
  have b: "\<not> showSafetyCheck (step s IAmSafe)"
    and c: "emergencyCalls (step s IAmSafe) = emergencyCalls s"
    and d: "nextIntervalId (step s IAmSafe) = nextIntervalId s"
    unfolding safe by (simp_all add: clearTimerRef_def clearInterval_def split: option.splits)
  from range a b c d quiet_run [OF a b] show ?thesis by simp
qed

theorem markSafe_cancels_countdown_witness:
  "showSafetyCheck (run initialState [SimulateAccident, Tick 1, Tick 1]) \<and>
   countdown (run initialState [SimulateAccident, Tick 1, Tick 1]) = 58 \<and>
   activeIntervals (run initialState [SimulateAccident, Tick 1, Tick 1]) = {1} \<and>
   activeIntervals (step (run initialState [SimulateAccident, Tick 1, Tick 1]) IAmSafe) = {} \<and>
   emergencyCalls (run (step (run initialState [SimulateAccident, Tick 1, Tick 1]) IAmSafe)
      (replicate 100 (Tick 1))) = 0"
proof -
  have s: "run initialState [SimulateAccident, Tick 1, Tick 1] =
      \<lparr>isMonitoring = False, showSafetyCheck = True, countdown = 58, location = None,
       lastJerk = 0, emergencyTriggered = False, timerRef = Some 1, activeIntervals = {1},
       nextIntervalId = 2, emergencyCalls = 0\<rparr>"
    by (simp add: handler_defs initialState_def)
  have a: "showSafetyCheck (run initialState [SimulateAccident, Tick 1, Tick 1])"
    unfolding s by simp
  note inst = markSafe_cancels_countdown [OF refl a]
  have quiet: "nextIntervalId (run (step (run initialState [SimulateAccident, Tick 1, Tick 1]) IAmSafe)
      (replicate 100 (Tick 1))) = nextIntervalId (run initialState [SimulateAccident, Tick 1, Tick 1])"
    using inst by (simp add: no_timer_ticks_idle s handler_defs)
  from inst quiet have "emergencyCalls (run (step (run initialState [SimulateAccident, Tick 1, Tick 1]) IAmSafe)
      (replicate 100 (Tick 1))) = emergencyCalls (run initialState [SimulateAccident, Tick 1, Tick 1])"
    by blast
  with inst show ?thesis unfolding s by simp
qed

subsection \<open>Jerk detection\<close>





text \<open>
  Claim C9. A motion event without \<^verbatim>\<open>accelerationIncludingGravity\<close> leaves the state
  as it is, so it never starts a safety check. A missing component counts as 0 in the
  magnitude: the magnitude is defined for every combination of present and missing
  components, and a sample with all three missing has magnitude 0 and does not fire.
\<close>

theorem missing_acceleration_is_ignored:
  "handleMotion \<lparr>accelerationIncludingGravity = None\<rparr> now now' s = s \<and>
   step s (Motion \<lparr>accelerationIncludingGravity = None\<rparr> now now') = s \<and>
   totalAcc \<lparr>acc_x = None, acc_y = y, acc_z = z\<rparr>
     = totalAcc \<lparr>acc_x = Some 0, acc_y = y, acc_z = z\<rparr> \<and>
   totalAcc \<lparr>acc_x = x, acc_y = None, acc_z = z\<rparr>
     = totalAcc \<lparr>acc_x = x, acc_y = Some 0, acc_z = z\<rparr> \<and>
   totalAcc \<lparr>acc_x = x, acc_y = y, acc_z = None\<rparr>
     = totalAcc \<lparr>acc_x = x, acc_y = y, acc_z = Some 0\<rparr> \<and>
   totalAcc \<lparr>acc_x = None, acc_y = None, acc_z = None\<rparr> = 0 \<and>
   handleMotion
     \<lparr>accelerationIncludingGravity = Some \<lparr>acc_x = None, acc_y = None, acc_z = None\<rparr>\<rparr>
     now now' s = s"
  by (simp add: handleMotion_def totalAcc_def orZero_def)



subsection \<open>Escalation\<close>

text \<open>
  Claim C5 as stated fails. The details of the incident carry the text of the hospital
  lookup, not the titles of its links: for the user Asha they do not contain
  \<^verbatim>\<open>City Hospital\<close>. And the name in the message is the user's, not the contact's:
  for a user Ravi, with the same contact Asha, they do not contain
  \<^verbatim>\<open>ASHA IS IN EMERGENCY\<close>.
\<close>

theorem incident_details_lack_hospital_title:
  "map body_details (esc_posts (escalate ''Asha'' [asha] (129, 1) (776, 1) cityLookup)) =
     [''Emergency triggered for Asha. ASHA IS IN EMERGENCY. Location: https://www.google.com/maps?q=12.9,77.6. Nearby hospitals: 3 hospitals found''] \<and>
   \<not> sublist ''City Hospital''
     ''Emergency triggered for Asha. ASHA IS IN EMERGENCY. Location: https://www.google.com/maps?q=12.9,77.6. Nearby hospitals: 3 hospitals found'' \<and>
   \<not> sublist ''ASHA IS IN EMERGENCY'' (incidentDetails ''Ravi'' (129, 1) (776, 1) cityLookup)"
proof -
  have a: "\<not> sublist ''City Hospital''
     ''Emergency triggered for Asha. ASHA IS IN EMERGENCY. Location: https://www.google.com/maps?q=12.9,77.6. Nearby hospitals: 3 hospitals found''"
    by code_simp
  have b: "\<not> sublist ''ASHA IS IN EMERGENCY'' (incidentDetails ''Ravi'' (129, 1) (776, 1) cityLookup)"
    by code_simp
  show ?thesis
    using a b unfolding escalate_def asha_details by simp
qed

text \<open>
  Claim C5, amended. For the user Asha at latitude 12.9 and longitude 77.6, with the
  hospital lookup answering \<^verbatim>\<open>3 hospitals found\<close> and the link City Hospital (phone
  123), and with the single contact Asha (phone 9999999999): the escalation sends exactly
  one POST request, which the server stores as one row with status \<^verbatim>\<open>PENDING\<close>; its
  details contain \<^verbatim>\<open>ASHA IS IN EMERGENCY\<close> (the user's name in upper case) and the
  lookup text \<^verbatim>\<open>3 hospitals found\<close>; exactly one alert is formatted, to phone
  9999999999; and exactly one ambulance request is formatted, which names City Hospital.
\<close>

theorem escalation_end_to_end:
  "findNearbyHospitals (129, 1) (776, 1) (Fulfilled cityResponse) = cityLookup \<and>
   triggerEmergencyAsync ''Asha'' [asha] (Some ((129, 1), (776, 1))) position (Fulfilled cityResponse)
     = Some (escalate ''Asha'' [asha] (129, 1) (776, 1) cityLookup) \<and>
   esc_posts (escalate ''Asha'' [asha] (129, 1) (776, 1) cityLookup) =
     [\<lparr>body_lat = (129, 1), body_lng = (776, 1),
       body_details = ''Emergency triggered for Asha. ASHA IS IN EMERGENCY. Location: https://www.google.com/maps?q=12.9,77.6. Nearby hospitals: 3 hospitals found''\<rparr>] \<and>
   servePosts ts (esc_posts (escalate ''Asha'' [asha] (129, 1) (776, 1) cityLookup)) db =
     db @ [\<lparr>incident_id = Suc (length db), incident_timestamp = ts,
            location_lat = (129, 1), location_lng = (776, 1), status = ''PENDING'',
            details = ''Emergency triggered for Asha. ASHA IS IN EMERGENCY. Location: https://www.google.com/maps?q=12.9,77.6. Nearby hospitals: 3 hospitals found''\<rparr>] \<and>
   sublist ''ASHA IS IN EMERGENCY''
     ''Emergency triggered for Asha. ASHA IS IN EMERGENCY. Location: https://www.google.com/maps?q=12.9,77.6. Nearby hospitals: 3 hospitals found'' \<and>
   sublist ''3 hospitals found''
     ''Emergency triggered for Asha. ASHA IS IN EMERGENCY. Location: https://www.google.com/maps?q=12.9,77.6. Nearby hospitals: 3 hospitals found'' \<and>
   esc_sms (escalate ''Asha'' [asha] (129, 1) (776, 1) cityLookup) =
     [\<lparr>sms_to = ''9999999999'',
       sms_message = ''ASHA IS IN EMERGENCY. Location: https://www.google.com/maps?q=12.9,77.6''\<rparr>] \<and>
   esc_ambulance (escalate ''Asha'' [asha] (129, 1) (776, 1) cityLookup) =
     [\<lparr>req_hospital = Some ''City Hospital'', req_phone = ''123'',
       req_message = ''EMERGENCY: Accident detected at https://www.google.com/maps?q=12.9,77.6. Ambulance requested for Asha.''\<rparr>]"
proof -
  have posts: "esc_posts (escalate ''Asha'' [asha] (129, 1) (776, 1) cityLookup) =
     [\<lparr>body_lat = (129, 1), body_lng = (776, 1),
       body_details = ''Emergency triggered for Asha. ASHA IS IN EMERGENCY. Location: https://www.google.com/maps?q=12.9,77.6. Nearby hospitals: 3 hospitals found''\<rparr>]"
    unfolding escalate_def asha_details by simp
  have run: "triggerEmergencyAsync ''Asha'' [asha] (Some ((129, 1), (776, 1))) position
       (Fulfilled cityResponse)
     = Some (escalate ''Asha'' [asha] (129, 1) (776, 1) cityLookup)"
    by (simp add: triggerEmergencyAsync_def city_lookup)
  have stored: "servePosts ts (esc_posts (escalate ''Asha'' [asha] (129, 1) (776, 1) cityLookup)) db =
     db @ [\<lparr>incident_id = Suc (length db), incident_timestamp = ts,
            location_lat = (129, 1), location_lng = (776, 1), status = ''PENDING'',
            details = ''Emergency triggered for Asha. ASHA IS IN EMERGENCY. Location: https://www.google.com/maps?q=12.9,77.6. Nearby hospitals: 3 hospitals found''\<rparr>]"
    unfolding posts servePosts_single by simp
  have name: "sublist ''ASHA IS IN EMERGENCY''
     ''Emergency triggered for Asha. ASHA IS IN EMERGENCY. Location: https://www.google.com/maps?q=12.9,77.6. Nearby hospitals: 3 hospitals found''"
    by code_simp
  have found: "sublist ''3 hospitals found''
     ''Emergency triggered for Asha. ASHA IS IN EMERGENCY. Location: https://www.google.com/maps?q=12.9,77.6. Nearby hospitals: 3 hospitals found''"
    by code_simp
  have sms: "esc_sms (escalate ''Asha'' [asha] (129, 1) (776, 1) cityLookup) =
     [\<lparr>sms_to = ''9999999999'',
       sms_message = ''ASHA IS IN EMERGENCY. Location: https://www.google.com/maps?q=12.9,77.6''\<rparr>]"
    unfolding escalate_def asha_message by (simp add: asha_def)
  have amb: "esc_ambulance (escalate ''Asha'' [asha] (129, 1) (776, 1) cityLookup) =
     [\<lparr>req_hospital = Some ''City Hospital'', req_phone = ''123'',
       req_message = ''EMERGENCY: Accident detected at https://www.google.com/maps?q=12.9,77.6. Ambulance requested for Asha.''\<rparr>]"
    unfolding escalate_def asha_ambulance by (simp add: cityLookup_def)
  from city_lookup run posts stored name found sms amb show ?thesis
    by blast
qed

text \<open>
  Claim C8 as stated fails in its last part: when the lookup fails, the hospital section
  of the incident is not empty. The details end with the fallback sentence.
\<close>

theorem lookup_failure_text_in_details:
  "map body_details (esc_posts (escalate ''Asha'' [asha] (129, 1) (776, 1)
      (findNearbyHospitals (129, 1) (776, 1) Rejected))) =
   [''Emergency triggered for Asha. ASHA IS IN EMERGENCY. Location: https://www.google.com/maps?q=12.9,77.6. Nearby hospitals: Could not retrieve hospital information due to an error.'']"
proof -
  have "incidentDetails ''Asha'' (129, 1) (776, 1) fallbackResult =
    ''Emergency triggered for Asha. ASHA IS IN EMERGENCY. Location: https://www.google.com/maps?q=12.9,77.6. Nearby hospitals: Could not retrieve hospital information due to an error.''"
    by code_simp
  then show ?thesis
    unfolding escalate_def findNearbyHospitals_def by simp
qed

text \<open>
  Claim C8, amended. For every latitude and longitude, a failure inside
  \<^verbatim>\<open>findNearbyHospitals\<close> does not reach the caller: the function returns exactly the
  text \<^verbatim>\<open>Could not retrieve hospital information due to an error.\<close> with no links. The
  escalation still completes once it has coordinates (the stored ones, or the answer of
  its own position request): it sends one POST request, stored as one \<^verbatim>\<open>PENDING\<close> row,
  whose details end with that fallback text after \<^verbatim>\<open>Nearby hospitals:\<close>; there are no
  hospital links and no ambulance request, and every contact still gets its alert.
\<close>

theorem lookup_failure_still_escalates:
  "findNearbyHospitals lat lng Rejected =
     \<lparr>result_text = ''Could not retrieve hospital information due to an error.'',
      result_links = []\<rparr> \<and>
   triggerEmergencyAsync u cs (Some (lat, lng)) position Rejected
     = Some (escalate u cs lat lng fallbackResult) \<and>
   triggerEmergencyAsync u cs None (Some (lat, lng)) Rejected
     = Some (escalate u cs lat lng fallbackResult) \<and>
   esc_posts (escalate u cs lat lng fallbackResult) =
     [\<lparr>body_lat = lat, body_lng = lng,
       body_details = ''Emergency triggered for '' @ u @ ''. '' @ emergencyMessage u lat lng
         @ ''. Nearby hospitals: Could not retrieve hospital information due to an error.''\<rparr>] \<and>
   servePosts ts (esc_posts (escalate u cs lat lng fallbackResult)) db =
     db @ [\<lparr>incident_id = Suc (length db), incident_timestamp = ts,
            location_lat = lat, location_lng = lng, status = ''PENDING'',
            details = ''Emergency triggered for '' @ u @ ''. '' @ emergencyMessage u lat lng
              @ ''. Nearby hospitals: Could not retrieve hospital information due to an error.''\<rparr>] \<and>
   esc_hospitalLinks (escalate u cs lat lng fallbackResult) = [] \<and>
   esc_ambulance (escalate u cs lat lng fallbackResult) = [] \<and>
   map sms_to (esc_sms (escalate u cs lat lng fallbackResult)) = map contact_phone cs"
proof -
  have posts: "esc_posts (escalate u cs lat lng fallbackResult) =
     [\<lparr>body_lat = lat, body_lng = lng,
       body_details = ''Emergency triggered for '' @ u @ ''. '' @ emergencyMessage u lat lng
         @ ''. Nearby hospitals: Could not retrieve hospital information due to an error.''\<rparr>]"
    by (simp add: escalate_def incidentDetails_def fallbackResult_def)
  have stored: "servePosts ts (esc_posts (escalate u cs lat lng fallbackResult)) db =
     db @ [\<lparr>incident_id = Suc (length db), incident_timestamp = ts,
            location_lat = lat, location_lng = lng, status = ''PENDING'',
            details = ''Emergency triggered for '' @ u @ ''. '' @ emergencyMessage u lat lng
              @ ''. Nearby hospitals: Could not retrieve hospital information due to an error.''\<rparr>]"
    unfolding posts servePosts_single by simp
  have rest: "findNearbyHospitals lat lng Rejected =
     \<lparr>result_text = ''Could not retrieve hospital information due to an error.'',
      result_links = []\<rparr>"
    "triggerEmergencyAsync u cs (Some (lat, lng)) position Rejected
     = Some (escalate u cs lat lng fallbackResult)"
    "triggerEmergencyAsync u cs None (Some (lat, lng)) Rejected
     = Some (escalate u cs lat lng fallbackResult)"
    "esc_hospitalLinks (escalate u cs lat lng fallbackResult) = []"
    "esc_ambulance (escalate u cs lat lng fallbackResult) = []"
    "map sms_to (esc_sms (escalate u cs lat lng fallbackResult)) = map contact_phone cs"
    by (simp_all add: findNearbyHospitals_def fallbackResult_def triggerEmergencyAsync_def
        escalate_def)
  from posts stored rest show ?thesis by blast
qed


end
